theory Spec2Isabelle
  imports Complex_Main "HOL-Library.Log_Nat"
begin

section \<open>Arrays and errors\<close>

text \<open>
  The feature store keeps NumPy arrays (\<^verbatim>\<open>np.ndarray\<close>) and SciPy sparse matrices
  (\<^verbatim>\<open>scipy.sparse.spmatrix\<close>). Both are modelled by the matrix they stand for: the
  number of columns (\<^verbatim>\<open>shape[-1]\<close>) and the list of rows, so that an array with no row
  still has a width. The entries are of any type \<open>'a\<close>; pooling needs a zero and an order
  (the values of the array's floating-point format, not-a-number aside).
  The array \<^verbatim>\<open>np.array([])\<close>, of shape \<^verbatim>\<open>(0,)\<close>, is the matrix of width 0 with no row:
  the source reads an array only through \<^verbatim>\<open>len\<close>, \<^verbatim>\<open>size\<close>, \<^verbatim>\<open>shape[-1]\<close> and its rows,
  and these agree.
\<close>

datatype 'a matrix = Matrix (ncols: nat) (rows: "'a list list")

definition well_shaped :: "'a matrix \<Rightarrow> bool" where
  "well_shaped m = (\<forall>r \<in> set (rows m). length r = ncols m)"

text \<open>
  What a \<^verbatim>\<open>Features\<close> object can hold: the constructor does not look at it, so any
  Python object is possible. \<open>PyObject\<close> is a value that is neither an array nor a sparse
  matrix and has no length (an \<^verbatim>\<open>int\<close>, an \<^verbatim>\<open>object()\<close>), named by its \<^verbatim>\<open>repr\<close>.
\<close>

datatype 'a tensor = NDArray "'a matrix" | SpMatrix "'a matrix" | PyObject string

text \<open>
  Every failure of the source is a \<^verbatim>\<open>ValueError\<close>, a \<^verbatim>\<open>KeyError\<close>, a \<^verbatim>\<open>TypeError\<close> or an
  \<^verbatim>\<open>AttributeError\<close>; the \<^verbatim>\<open>ValueError\<close>s are told apart by their message, and carry what
  the message prints.
\<close>

datatype error =
    InvalidFeatureType string
  | IncompatibleSparsity
  | ShapeMismatch nat nat
  | InvalidPooling string
  | KeyError string
  | TypeError string
  | AttributeError string

definition np_len :: "'a matrix \<Rightarrow> nat" where
  "np_len m = length (rows m)"

definition np_size :: "'a matrix \<Rightarrow> nat" where
  "np_size m = length (rows m) * ncols m"

text \<open>\<^verbatim>\<open>np.concatenate((a, b), axis=-1)\<close> and \<^verbatim>\<open>scipy.sparse.hstack([a, b])\<close> on two matrices
  with the same number of rows: row \<open>i\<close> of \<open>a\<close> followed by row \<open>i\<close> of \<open>b\<close>.\<close>

definition np_concatenate :: "'a matrix \<Rightarrow> 'a matrix \<Rightarrow> 'a matrix" where
  "np_concatenate a b = Matrix (ncols a + ncols b) (map2 (@) (rows a) (rows b))"

definition hstack :: "'a matrix \<Rightarrow> 'a matrix \<Rightarrow> 'a matrix" where
  "hstack a b = Matrix (ncols a + ncols b) (map2 (@) (rows a) (rows b))"

section \<open>Features (featurizer.py)\<close>

text \<open>
  Modelled from the spec: the constants \<^verbatim>\<open>FEATURE_TYPE_SEQUENCE\<close>, \<^verbatim>\<open>FEATURE_TYPE_SENTENCE\<close>
  and \<^verbatim>\<open>VALID_FEATURE_TYPES\<close> of \<^verbatim>\<open>rasa.nlu.constants\<close>, which is not among the sources. The
  spec's granularity is the enumeration of SEQUENCE and SENTENCE, and construction fails
  for any other value.
\<close>

definition FEATURE_TYPE_SEQUENCE :: string where
  "FEATURE_TYPE_SEQUENCE = ''sequence''"

definition FEATURE_TYPE_SENTENCE :: string where
  "FEATURE_TYPE_SENTENCE = ''sentence''"

definition VALID_FEATURE_TYPES :: "string list" where
  "VALID_FEATURE_TYPES = [FEATURE_TYPE_SEQUENCE, FEATURE_TYPE_SENTENCE]"

record 'a Features =
  features :: "'a tensor"
  ftype :: string
  origin :: string
  message_attribute :: string

definition validate_type :: "string \<Rightarrow> error + unit" where
  "validate_type ty =
     (if ty \<notin> set VALID_FEATURE_TYPES then Inl (InvalidFeatureType ty) else Inr ())"

text \<open>\<^verbatim>\<open>Features.__init__(features, type, message_attribute, origin)\<close>.\<close>

definition Features_init ::
  "'a tensor \<Rightarrow> string \<Rightarrow> string \<Rightarrow> string \<Rightarrow> error + 'a Features" where
  "Features_init feats ty attr orig =
     (case validate_type ty of
        Inl e \<Rightarrow> Inl e
      | Inr _ \<Rightarrow>
          Inr \<lparr>features = feats, ftype = ty, origin = orig, message_attribute = attr\<rparr>)"

text \<open>\<^verbatim>\<open>isinstance(x, scipy.sparse.spmatrix)\<close> and \<^verbatim>\<open>isinstance(x, np.ndarray)\<close>.\<close>

fun isinstance_spmatrix :: "'a tensor \<Rightarrow> bool" where
  "isinstance_spmatrix (SpMatrix m) = True"
| "isinstance_spmatrix (NDArray m) = False"
| "isinstance_spmatrix (PyObject x) = False"

fun isinstance_ndarray :: "'a tensor \<Rightarrow> bool" where
  "isinstance_ndarray (NDArray m) = True"
| "isinstance_ndarray (SpMatrix m) = False"
| "isinstance_ndarray (PyObject x) = False"

definition is_sparse :: "'a Features \<Rightarrow> bool" where
  "is_sparse self = isinstance_spmatrix (features self)"

definition is_dense :: "'a Features \<Rightarrow> bool" where
  "is_dense self = (\<not> is_sparse self)"

text \<open>\<^verbatim>\<open>Features._combine_dense_features\<close>: the length check, then the concatenation
  along the last axis.\<close>

definition combine_dense_features :: "'a matrix \<Rightarrow> 'a matrix \<Rightarrow> error + 'a matrix" where
  "combine_dense_features feats additional_features =
     (if np_len feats \<noteq> np_len additional_features
      then Inl (ShapeMismatch (np_len feats) (np_len additional_features))
      else Inr (np_concatenate feats additional_features))"

text \<open>\<^verbatim>\<open>Features._combine_sparse_features\<close>: the same on \<^verbatim>\<open>shape[0]\<close>, with \<^verbatim>\<open>hstack\<close>.\<close>

definition combine_sparse_features :: "'a matrix \<Rightarrow> 'a matrix \<Rightarrow> error + 'a matrix" where
  "combine_sparse_features feats additional_features =
     (if length (rows feats) \<noteq> length (rows additional_features)
      then Inl (ShapeMismatch (length (rows feats)) (length (rows additional_features)))
      else Inr (hstack feats additional_features))"

text \<open>
  The two static methods are typed on arrays and on sparse matrices. \<^verbatim>\<open>is_dense\<close> holds of
  every value that is not a sparse matrix, so the dense branch can be entered with a
  \<open>PyObject\<close> in \<^verbatim>\<open>self.features\<close>: \<^verbatim>\<open>len\<close> of it raises \<^verbatim>\<open>TypeError\<close>. The sparse branch is
  entered with two sparse matrices only.
\<close>

fun dense_branch :: "'a tensor \<Rightarrow> 'a tensor \<Rightarrow> error + 'a tensor" where
  "dense_branch (NDArray a) (NDArray b) =
     (case combine_dense_features a b of Inl e \<Rightarrow> Inl e | Inr c \<Rightarrow> Inr (NDArray c))"
| "dense_branch (PyObject x) t = Inl (TypeError x)"
| "dense_branch s t = Inl (TypeError ''len'')"

fun sparse_branch :: "'a tensor \<Rightarrow> 'a tensor \<Rightarrow> error + 'a tensor" where
  "sparse_branch (SpMatrix a) (SpMatrix b) =
     (case combine_sparse_features a b of Inl e \<Rightarrow> Inl e | Inr c \<Rightarrow> Inr (SpMatrix c))"
| "sparse_branch s t = Inl (TypeError ''shape'')"

text \<open>\<^verbatim>\<open>Features.combine_with_features(self, additional_features)\<close>.\<close>

definition combine_with_features ::
  "'a Features \<Rightarrow> 'a tensor option \<Rightarrow> error + 'a tensor" where
  "combine_with_features self additional_features =
     (case additional_features of
        None \<Rightarrow> Inr (features self)
      | Some additional \<Rightarrow>
          if is_dense self \<and> isinstance_ndarray additional
          then dense_branch (features self) additional
          else if is_sparse self \<and> isinstance_spmatrix additional
          then sparse_branch (features self) additional
          else Inl IncompatibleSparsity)"

section \<open>Pooling (featurizer.py)\<close>

text \<open>
  Modelled from the spec: the constants \<^verbatim>\<open>MEAN_POOLING\<close> and \<^verbatim>\<open>MAX_POOLING\<close> of
  \<^verbatim>\<open>rasa.utils.tensorflow.constants\<close>, which is not among the sources. The spec names the
  two policies mean and max, as the comment on the featurizer's defaults does.
\<close>

definition MEAN_POOLING :: string where
  "MEAN_POOLING = ''mean''"

definition MAX_POOLING :: string where
  "MAX_POOLING = ''max''"

text \<open>\<^verbatim>\<open>f.any()\<close> on a row: some entry is not zero.\<close>

definition row_any :: "'a::zero list \<Rightarrow> bool" where
  "row_any f = (\<exists>x \<in> set f. x \<noteq> 0)"

text \<open>\<^verbatim>\<open>np.array(rs)\<close> on a list of rows of one length: no row gives the array of shape
  \<^verbatim>\<open>(0,)\<close>, otherwise the width is the length of the rows.\<close>

definition np_array :: "'a list list \<Rightarrow> 'a matrix" where
  "np_array rs = (case rs of [] \<Rightarrow> Matrix 0 [] | r # _ \<Rightarrow> Matrix (length r) rs)"

definition np_zeros :: "nat \<Rightarrow> nat \<Rightarrow> 'a::zero matrix" where
  "np_zeros n w = Matrix w (replicate n (replicate w 0))"

definition column :: "'a list list \<Rightarrow> nat \<Rightarrow> 'a list" where
  "column rs j = map (\<lambda>r. r ! j) rs"

fun max_list :: "'a::linorder list \<Rightarrow> 'a" where
  "max_list (x # y # ys) = max x (max_list (y # ys))"
| "max_list xs = hd xs"

text \<open>
  \<^verbatim>\<open>np.mean(m, axis=0, keepdims=True)\<close> and \<^verbatim>\<open>np.max(m, axis=0, keepdims=True)\<close>, on a
  matrix with at least one row: one row, column by column. The arithmetic of NumPy is
  not part of the repository: what \<^verbatim>\<open>np.mean\<close> makes of the entries of one column, in the
  floating-point format of the array, is the parameter \<open>mean\<close>.
\<close>

definition np_mean :: "('a list \<Rightarrow> 'a) \<Rightarrow> 'a matrix \<Rightarrow> 'a matrix" where
  "np_mean mean m = Matrix (ncols m) [map (\<lambda>j. mean (column (rows m) j)) [0..<ncols m]]"

definition np_max :: "'a::linorder matrix \<Rightarrow> 'a matrix" where
  "np_max m = Matrix (ncols m) [map (\<lambda>j. max_list (column (rows m) j)) [0..<ncols m]]"

text \<open>\<^verbatim>\<open>DenseFeaturizer._calculate_cls_vector(features, pooling_operation)\<close>.\<close>

definition calculate_cls_vector ::
  "('a list \<Rightarrow> 'a) \<Rightarrow> 'a::{zero,linorder} matrix \<Rightarrow> string \<Rightarrow> error + 'a matrix" where
  "calculate_cls_vector mean feats pooling_operation =
     (let non_zero_features = np_array (filter row_any (rows feats)) in
      if np_size non_zero_features = 0 then Inr (np_zeros 1 (ncols feats))
      else if pooling_operation = MEAN_POOLING then Inr (np_mean mean non_zero_features)
      else if pooling_operation = MAX_POOLING then Inr (np_max non_zero_features)
      else Inl (InvalidPooling pooling_operation))"

text \<open>
  The mean of a column in the format \<^verbatim>\<open>float64\<close>, for finite values in the normal range:
  a value is a rational, \<open>float64_round\<close> is the nearest value with a significand of 53
  bits (ties to even), the entries are added in the order of the rows, each sum rounded,
  and the sum is divided by the number of rows and rounded.
\<close>

definition round_half_even :: "rat \<Rightarrow> int" where
  "round_half_even x =
     (let f = \<lfloor>x\<rfloor>; d = x - of_int f in
      if d < 1 / 2 then f
      else if 1 / 2 < d then f + 1
      else if even f then f else f + 1)"

definition float64_round :: "rat \<Rightarrow> rat" where
  "float64_round x =
     (if x = 0 then 0
      else
        let a = \<bar>x\<bar>;
            e = (if 1 \<le> a then bitlen \<lfloor>a\<rfloor> - 1 else - bitlen (\<lceil>1 / a\<rceil> - 1));
            m = round_half_even (a * 2 powi (52 - e))
        in sgn x * of_int m * 2 powi (e - 52))"

definition float64_mean :: "rat list \<Rightarrow> rat" where
  "float64_mean xs =
     float64_round (foldl (\<lambda>s x. float64_round (s + x)) 0 xs / of_nat (length xs))"

section \<open>Message (message.py)\<close>

text \<open>
  The values a message keeps in \<^verbatim>\<open>data\<close>: \<^verbatim>\<open>None\<close>, a string (an intent, a response), an
  integer, or a spaCy document, which is the list of its tokens, each with its surface
  text, a Python string and so a list of Unicode code points, and its vector.
\<close>

record 'a token =
  tok_text :: "nat list"
  vector :: "'a list"

datatype 'a pyval = PyNone | PyStr string | PyInt int | PyDoc "'a token list"

record 'a Message =
  msg_text :: string
  msg_time :: "string option"
  msg_data :: "string \<rightharpoonup> 'a pyval"
  msg_features :: "'a Features list"
  msg_output_properties :: "string set"

text \<open>
  Modelled from the spec: the constant \<^verbatim>\<open>TEXT\<close> of \<^verbatim>\<open>rasa.nlu.constants\<close>, which is not
  among the sources: the attribute of the raw text.
\<close>

definition TEXT :: string where
  "TEXT = ''text''"

definition add_features :: "'a Message \<Rightarrow> 'a Features \<Rightarrow> 'a Message" where
  "add_features self f = self\<lparr>msg_features := msg_features self @ [f]\<rparr>"

text \<open>\<^verbatim>\<open>Message.get(prop)\<close>, with the default \<^verbatim>\<open>None\<close>.\<close>

definition get :: "'a Message \<Rightarrow> string \<Rightarrow> 'a pyval" where
  "get self prop =
     (if prop = TEXT then PyStr (msg_text self)
      else (case msg_data self prop of None \<Rightarrow> PyNone | Some v \<Rightarrow> v))"

text \<open>\<^verbatim>\<open>Message.as_dict(only_output_properties)\<close>: the two dictionary comprehensions, then
  \<^verbatim>\<open>dict(d, text=self.text)\<close>.\<close>

definition as_dict :: "'a Message \<Rightarrow> bool \<Rightarrow> (string \<rightharpoonup> 'a pyval)" where
  "as_dict self only_output_properties =
     (let d = (if only_output_properties
               then (\<lambda>key. if key \<in> msg_output_properties self then msg_data self key
                           else None)
               else msg_data self);
          d' = (\<lambda>key. case d key of
                         None \<Rightarrow> None
                       | Some v \<Rightarrow> if v \<noteq> PyNone then Some v else None)
      in d'(''text'' \<mapsto> PyStr (msg_text self)))"

text \<open>
  message.py reads \<^verbatim>\<open>Features.SEQUENCE\<close>, \<^verbatim>\<open>Features.SENTENCE\<close> and
  \<^verbatim>\<open>Features.combine_features\<close> from the class \<^verbatim>\<open>Features\<close> it imports from featurizer.py.
  The body of that class declares \<^verbatim>\<open>validate_type\<close>, \<^verbatim>\<open>is_sparse\<close>, \<^verbatim>\<open>is_dense\<close>,
  \<^verbatim>\<open>combine_with_features\<close>, \<^verbatim>\<open>_combine_dense_features\<close> and \<^verbatim>\<open>_combine_sparse_features\<close>, and
  none of the three: reading one of them raises \<^verbatim>\<open>AttributeError\<close>.
\<close>

definition Features_SEQUENCE :: "error + string" where
  "Features_SEQUENCE = Inl (AttributeError ''SEQUENCE'')"

definition Features_SENTENCE :: "error + string" where
  "Features_SENTENCE = Inl (AttributeError ''SENTENCE'')"

definition Features_combine_features ::
  "error + ('a tensor option \<Rightarrow> 'a Features \<Rightarrow> error + 'a tensor option)" where
  "Features_combine_features = Inl (AttributeError ''combine_features'')"

text \<open>A list comprehension \<^verbatim>\<open>[f for f in fs if cond]\<close> whose condition can raise: the
  condition is evaluated for each element in turn, and the first exception ends it.\<close>

fun comprehension :: "('f \<Rightarrow> error + bool) \<Rightarrow> 'f list \<Rightarrow> error + 'f list" where
  "comprehension cond [] = Inr []"
| "comprehension cond (f # fs) =
     (case cond f of
        Inl e \<Rightarrow> Inl e
      | Inr keep \<Rightarrow>
          (case comprehension cond fs of
             Inl e \<Rightarrow> Inl e
           | Inr kept \<Rightarrow> Inr (if keep then f # kept else kept)))"

text \<open>The loop \<^verbatim>\<open>for f in fs: combined = Features.combine_features(combined, f)\<close>: each
  turn reads the attribute of the class, then calls it.\<close>

fun combine_loop :: "'a tensor option \<Rightarrow> 'a Features list \<Rightarrow> error + 'a tensor option" where
  "combine_loop combined [] = Inr combined"
| "combine_loop combined (f # fs) =
     (case Features_combine_features of
        Inl e \<Rightarrow> Inl e
      | Inr combine \<Rightarrow>
          (case combine combined f of
             Inl e \<Rightarrow> Inl e
           | Inr combined' \<Rightarrow> combine_loop combined' fs))"

text \<open>
  \<^verbatim>\<open>Message.get_sparse_features(attribute, sequence_featurizers, sentence_featurizers)\<close>. In
  the condition \<^verbatim>\<open>f.type == Features.SEQUENCE and (...)\<close> the comparison is evaluated
  first, and with it the attribute of the class.
\<close>

definition get_sparse_features ::
  "'a Message \<Rightarrow> string \<Rightarrow> string list \<Rightarrow> string list \<Rightarrow>
     error + ('a tensor option \<times> 'a tensor option)" where
  "get_sparse_features self attribute sequence_featurizers sentence_featurizers =
     (let feats = [f \<leftarrow> msg_features self. message_attribute f = attribute \<and> is_sparse f] in
      if feats = [] then Inr (None, None)
      else
        (case comprehension
                (\<lambda>f. case Features_SEQUENCE of
                        Inl e \<Rightarrow> Inl e
                      | Inr SEQUENCE \<Rightarrow>
                          Inr (ftype f = SEQUENCE \<and>
                               (origin f \<in> set sequence_featurizers
                                  \<or> sentence_featurizers = [])))
                feats of
           Inl e \<Rightarrow> Inl e
         | Inr sequence_features \<Rightarrow>
             (case comprehension
                     (\<lambda>f. case Features_SENTENCE of
                             Inl e \<Rightarrow> Inl e
                           | Inr SENTENCE \<Rightarrow>
                               Inr (ftype f = SENTENCE \<and>
                                    (origin f \<in> set sentence_featurizers
                                       \<or> sentence_featurizers = [])))
                     feats of
                Inl e \<Rightarrow> Inl e
              | Inr sentence_features \<Rightarrow>
                  if sequence_features = [] \<and> sentence_features = [] then Inr (None, None)
                  else
                    (case combine_loop None sequence_features of
                       Inl e \<Rightarrow> Inl e
                     | Inr combined_sequence_features \<Rightarrow>
                         (case combine_loop None sentence_features of
                            Inl e \<Rightarrow> Inl e
                          | Inr combined_sentence_features \<Rightarrow>
                              Inr (combined_sequence_features,
                                   combined_sentence_features))))))"

text \<open>\<^verbatim>\<open>Message.get_dense_features(attribute, sequence_featurizers, sentence_featurizers)\<close>:
  the same text with \<^verbatim>\<open>is_dense\<close>.\<close>

definition get_dense_features ::
  "'a Message \<Rightarrow> string \<Rightarrow> string list \<Rightarrow> string list \<Rightarrow>
     error + ('a tensor option \<times> 'a tensor option)" where
  "get_dense_features self attribute sequence_featurizers sentence_featurizers =
     (let feats = [f \<leftarrow> msg_features self. message_attribute f = attribute \<and> is_dense f] in
      if feats = [] then Inr (None, None)
      else
        (case comprehension
                (\<lambda>f. case Features_SEQUENCE of
                        Inl e \<Rightarrow> Inl e
                      | Inr SEQUENCE \<Rightarrow>
                          Inr (ftype f = SEQUENCE \<and>
                               (origin f \<in> set sequence_featurizers
                                  \<or> sentence_featurizers = [])))
                feats of
           Inl e \<Rightarrow> Inl e
         | Inr sequence_features \<Rightarrow>
             (case comprehension
                     (\<lambda>f. case Features_SENTENCE of
                             Inl e \<Rightarrow> Inl e
                           | Inr SENTENCE \<Rightarrow>
                               Inr (ftype f = SENTENCE \<and>
                                    (origin f \<in> set sentence_featurizers
                                       \<or> sentence_featurizers = [])))
                     feats of
                Inl e \<Rightarrow> Inl e
              | Inr sentence_features \<Rightarrow>
                  if sequence_features = [] \<and> sentence_features = [] then Inr (None, None)
                  else
                    (case combine_loop None sequence_features of
                       Inl e \<Rightarrow> Inl e
                     | Inr combined_sequence_features \<Rightarrow>
                         (case combine_loop None sentence_features of
                            Inl e \<Rightarrow> Inl e
                          | Inr combined_sentence_features \<Rightarrow>
                              Inr (combined_sequence_features,
                                   combined_sentence_features))))))"

section \<open>The spaCy featurizer (spacy_featurizer.py)\<close>

text \<open>
  Modelled from the spec: the configuration keys \<^verbatim>\<open>POOLING\<close> and \<^verbatim>\<open>ALIAS\<close>
  (\<^verbatim>\<open>rasa.utils.tensorflow.constants\<close>, \<^verbatim>\<open>rasa.nlu.constants\<close>), which are not among the
  sources: the adapter's pooling policy and its own origin identifier.
\<close>

definition POOLING :: string where
  "POOLING = ''pooling''"

definition ALIAS :: string where
  "ALIAS = ''alias''"

record SpacyFeaturizer =
  component_config :: "string \<rightharpoonup> string"
  pooling_operation :: string

definition defaults :: "string \<rightharpoonup> string" where
  "defaults = [POOLING \<mapsto> MEAN_POOLING, ALIAS \<mapsto> ''spacy_featurizer'']"

text \<open>
  \<^verbatim>\<open>SpacyFeaturizer.__init__\<close>. The constructor of the base class \<^verbatim>\<open>Component\<close> is not
  among the sources; \<open>config\<close> is \<^verbatim>\<open>self.component_config\<close> as it leaves it, which
  \<^verbatim>\<open>__init__\<close> then reads at \<^verbatim>\<open>POOLING\<close>.
\<close>

definition SpacyFeaturizer_init :: "(string \<rightharpoonup> string) \<Rightarrow> error + SpacyFeaturizer" where
  "SpacyFeaturizer_init config =
     (case config POOLING of
        None \<Rightarrow> Inl (KeyError POOLING)
      | Some p \<Rightarrow> Inr \<lparr>component_config = config, pooling_operation = p\<rparr>)"

text \<open>
  \<^verbatim>\<open>str.strip()\<close> drops the whitespace at both ends. The whitespace of a Python string
  is the code points U+0009 to U+000D, U+001C to U+0020, U+0085, U+00A0, U+1680, U+2000 to
  U+200A, U+2028, U+2029, U+202F, U+205F and U+3000.
\<close>

definition is_space :: "nat \<Rightarrow> bool" where
  "is_space c =
     ((9 \<le> c \<and> c \<le> 13) \<or> (28 \<le> c \<and> c \<le> 32) \<or> c = 133 \<or> c = 160 \<or> c = 5760
      \<or> (8192 \<le> c \<and> c \<le> 8202) \<or> c = 8232 \<or> c = 8233 \<or> c = 8239 \<or> c = 8287
      \<or> c = 12288)"

definition strip :: "nat list \<Rightarrow> nat list" where
  "strip s = rev (dropWhile is_space (rev (dropWhile is_space s)))"

text \<open>
  \<^verbatim>\<open>SpacyFeaturizer._features_for_doc(doc)\<close>, on the value \<^verbatim>\<open>get_doc\<close> found. A document
  gives the vectors of the tokens whose text is not empty and not blank. A string is
  iterated character by character, and a character has no attribute \<^verbatim>\<open>text\<close>; an integer
  is not iterable.
\<close>

fun features_for_doc :: "'a pyval \<Rightarrow> error + 'a matrix" where
  "features_for_doc (PyDoc doc) =
     Inr (np_array [vector t. t \<leftarrow> doc, tok_text t \<noteq> [] \<and> strip (tok_text t) \<noteq> []])"
| "features_for_doc (PyStr s) =
     (if s = [] then Inr (np_array []) else Inl (AttributeError ''text''))"
| "features_for_doc (PyInt n) = Inl (TypeError ''int'')"
| "features_for_doc PyNone = Inl (TypeError ''NoneType'')"

text \<open>\<^verbatim>\<open>SpacyFeaturizer.get_doc(message, attribute)\<close>: \<^verbatim>\<open>SPACY_DOCS\<close>, a dictionary of
  \<^verbatim>\<open>rasa.nlu.constants\<close> from attributes to the keys of their documents, is not among the
  sources and is a parameter.\<close>

definition get_doc :: "(string \<rightharpoonup> string) \<Rightarrow> 'a Message \<Rightarrow> string \<Rightarrow> error + 'a pyval" where
  "get_doc SPACY_DOCS message attribute =
     (case SPACY_DOCS attribute of
        None \<Rightarrow> Inl (KeyError attribute)
      | Some key \<Rightarrow> Inr (get message key))"

text \<open>
  \<^verbatim>\<open>SpacyFeaturizer._set_spacy_features(message, attribute)\<close>. The method mutates the
  message and returns nothing: the result is the exception raised, if any, and the
  message as the method leaves it. \<open>mean\<close> is the mean of \<^verbatim>\<open>np.mean\<close> on a column.
\<close>

definition set_spacy_features ::
  "('a list \<Rightarrow> 'a) \<Rightarrow> (string \<rightharpoonup> string) \<Rightarrow> SpacyFeaturizer \<Rightarrow>
     'a::{zero,linorder} Message \<Rightarrow> string \<Rightarrow> error option \<times> 'a Message" where
  "set_spacy_features mean SPACY_DOCS self message attribute =
     (case get_doc SPACY_DOCS message attribute of
        Inl e \<Rightarrow> (Some e, message)
      | Inr message_attribute_doc \<Rightarrow>
          if message_attribute_doc \<noteq> PyNone then
            (case features_for_doc message_attribute_doc of
               Inl e \<Rightarrow> (Some e, message)
             | Inr feats \<Rightarrow>
                 (case calculate_cls_vector mean feats (pooling_operation self) of
                    Inl e \<Rightarrow> (Some e, message)
                  | Inr cls_token_vec \<Rightarrow>
                      (case component_config self ALIAS of
                         None \<Rightarrow> (Some (KeyError ALIAS), message)
                       | Some alias \<Rightarrow>
                           (case Features_init (NDArray feats) FEATURE_TYPE_SEQUENCE
                                   attribute alias of
                              Inl e \<Rightarrow> (Some e, message)
                            | Inr final_sequence_features \<Rightarrow>
                                (let message1 = add_features message final_sequence_features in
                                 case Features_init (NDArray cls_token_vec)
                                        FEATURE_TYPE_SENTENCE attribute alias of
                                   Inl e \<Rightarrow> (Some e, message1)
                                 | Inr final_sentence_features \<Rightarrow>
                                     (None, add_features message1 final_sentence_features))))))
          else (None, message))"

text \<open>\<^verbatim>\<open>SpacyFeaturizer.process(message)\<close>: the attribute is \<^verbatim>\<open>TEXT\<close>.\<close>

definition process ::
  "('a list \<Rightarrow> 'a) \<Rightarrow> (string \<rightharpoonup> string) \<Rightarrow> SpacyFeaturizer \<Rightarrow>
     'a::{zero,linorder} Message \<Rightarrow> error option \<times> 'a Message" where
  "process mean SPACY_DOCS self message =
     set_spacy_features mean SPACY_DOCS self message TEXT"

section \<open>Definitions the statements use\<close>

text \<open>The two ways of grouping three dense arrays, each stopping at the first failure.\<close>

definition combine_left :: "'a matrix \<Rightarrow> 'a matrix \<Rightarrow> 'a matrix \<Rightarrow> error + 'a matrix" where
  "combine_left a b c =
     (case combine_dense_features a b of
        Inl e \<Rightarrow> Inl e
      | Inr ab \<Rightarrow> combine_dense_features ab c)"

definition combine_right :: "'a matrix \<Rightarrow> 'a matrix \<Rightarrow> 'a matrix \<Rightarrow> error + 'a matrix" where
  "combine_right a b c =
     (case combine_dense_features b c of
        Inl e \<Rightarrow> Inl e
      | Inr bc \<Rightarrow> combine_dense_features a bc)"

text \<open>A message to evaluate the export on.\<close>

definition example_message :: "rat Message" where
  "example_message =
     \<lparr>msg_text = ''hello'', msg_time = None,
      msg_data = [''intent'' \<mapsto> PyStr ''greet'', ''response'' \<mapsto> PyNone, ''text'' \<mapsto> PyNone,
                  ''count'' \<mapsto> PyInt 3],
      msg_features = [],
      msg_output_properties = {''intent'', ''response''}\<rparr>"

text \<open>
  The document keys of the attributes, a featurizer as the constructor leaves it for the
  pooling value \<^verbatim>\<open>median\<close>, one for the defaults, a message with a document of the three
  tokens \<^verbatim>\<open>hi\<close>, a no-break space and \<^verbatim>\<open>you\<close>, and a message with four stored records.
\<close>

definition example_docs :: "string \<rightharpoonup> string" where
  "example_docs = [''text'' \<mapsto> ''spacy_doc'', ''response'' \<mapsto> ''response_spacy_doc'']"

definition median_featurizer :: SpacyFeaturizer where
  "median_featurizer =
     \<lparr>component_config = [POOLING \<mapsto> ''median'', ALIAS \<mapsto> ''spacy_featurizer''],
      pooling_operation = ''median''\<rparr>"

definition doc_message :: "rat Message" where
  "doc_message =
     \<lparr>msg_text = ''hi you'', msg_time = None,
      msg_data = [''spacy_doc'' \<mapsto>
         PyDoc [\<lparr>tok_text = [104, 105], vector = [1, 0]\<rparr>,
                \<lparr>tok_text = [160], vector = [5, 5]\<rparr>,
                \<lparr>tok_text = [121, 111, 117], vector = [0, 2]\<rparr>]],
      msg_features = [],
      msg_output_properties = {}\<rparr>"

definition mean_featurizer :: SpacyFeaturizer where
  "mean_featurizer = \<lparr>component_config = defaults, pooling_operation = MEAN_POOLING\<rparr>"

definition stored_message :: "rat Message" where
  "stored_message =
     \<lparr>msg_text = ''hi you'', msg_time = None, msg_data = Map.empty,
      msg_features =
        [\<lparr>features = NDArray (Matrix 1 [[1], [2]]), ftype = ''sequence'', origin = ''a'',
           message_attribute = ''text''\<rparr>,
         \<lparr>features = NDArray (Matrix 1 [[9]]), ftype = ''sentence'', origin = ''a'',
           message_attribute = ''text''\<rparr>,
         \<lparr>features = SpMatrix (Matrix 1 [[7], [8]]), ftype = ''sequence'', origin = ''c'',
           message_attribute = ''text''\<rparr>,
         \<lparr>features = NDArray (Matrix 1 [[3], [4]]), ftype = ''sequence'', origin = ''b'',
           message_attribute = ''text''\<rparr>],
      msg_output_properties = {}\<rparr>"

section \<open>Properties of the combination\<close>

lemma map2_append_length:
  "length (map2 (@) xs ys) = min (length xs) (length ys)"
  by simp

lemma map2_append_nth:
  "i < length xs \<Longrightarrow> i < length ys \<Longrightarrow> map2 (@) xs ys ! i = xs ! i @ ys ! i"
  by simp

lemma well_shaped_concat:
  assumes "well_shaped a" and "well_shaped b"
  shows "well_shaped (Matrix (ncols a + ncols b) (map2 (@) (rows a) (rows b)))"
proof -
  have "length r = ncols a + ncols b" if "r \<in> set (map2 (@) (rows a) (rows b))" for r
  proof -
    from that obtain x y where xy: "(x, y) \<in> set (zip (rows a) (rows b))" and r: "r = x @ y"
      by auto
    from xy have "x \<in> set (rows a)" and "y \<in> set (rows b)"
      by (auto dest: set_zip_leftD set_zip_rightD)
    with assms r show ?thesis
      by (simp add: well_shaped_def)
  qed
  then show ?thesis
    by (simp add: well_shaped_def)
qed

lemma map2_append_two:
  "length xs = length ys \<Longrightarrow>
     map2 (@) xs ys = map (\<lambda>i. xs ! i @ ys ! i) [0..<length xs]"
  by (rule nth_equalityI) simp_all

lemma map2_append_assoc:
  "length xs = length ys \<Longrightarrow> length ys = length zs \<Longrightarrow>
     map2 (@) (map2 (@) xs ys) zs = map2 (@) xs (map2 (@) ys zs)"
proof (induction xs arbitrary: ys zs)
  case Nil
  then show ?case by simp
next
  case (Cons x xs)
  then obtain y ys' z zs' where "ys = y # ys'" and "zs = z # zs'"
    by (metis length_Suc_conv)
  with Cons show ?case by simp
qed

lemma map2_append_three:
  "length xs = length ys \<Longrightarrow> length ys = length zs \<Longrightarrow>
     map2 (@) (map2 (@) xs ys) zs = map (\<lambda>i. xs ! i @ ys ! i @ zs ! i) [0..<length xs]"
  by (rule nth_equalityI) simp_all



section \<open>Properties of the retrieval\<close>

lemma comprehension_raises:
  "fs \<noteq> [] \<Longrightarrow> (\<And>f. cond f = Inl e) \<Longrightarrow> comprehension cond fs = Inl e"
  by (cases fs) simp_all

lemma get_dense_features_value:
  "get_dense_features m attribute seqf sentf =
     (if [f \<leftarrow> msg_features m. message_attribute f = attribute \<and> is_dense f] = []
      then Inr (None, None) else Inl (AttributeError ''SEQUENCE''))"
  by (simp add: get_dense_features_def Let_def Features_SEQUENCE_def comprehension_raises)

lemma get_sparse_features_value:
  "get_sparse_features m attribute seqf sentf =
     (if [f \<leftarrow> msg_features m. message_attribute f = attribute \<and> is_sparse f] = []
      then Inr (None, None) else Inl (AttributeError ''SEQUENCE''))"
  by (simp add: get_sparse_features_def Let_def Features_SEQUENCE_def comprehension_raises)

section \<open>Properties of the featurizer\<close>

lemma non_blank_iff:
  "(s \<noteq> [] \<and> strip s \<noteq> []) = (\<exists>c \<in> set s. \<not> is_space c)"
proof -
  have "(strip s \<noteq> []) = (\<exists>c \<in> set (dropWhile is_space s). \<not> is_space c)"
    by (auto simp add: strip_def dropWhile_eq_Nil_conv)
  also have "\<dots> = (\<exists>c \<in> set s. \<not> is_space c)"
  proof
    assume "\<exists>c \<in> set (dropWhile is_space s). \<not> is_space c"
    then show "\<exists>c \<in> set s. \<not> is_space c"
      by (blast dest: set_dropWhileD)
  next
    assume "\<exists>c \<in> set s. \<not> is_space c"
    then have "dropWhile is_space s \<noteq> []"
      by (simp add: dropWhile_eq_Nil_conv)
    then have "\<not> is_space (hd (dropWhile is_space s))"
      by (rule hd_dropWhile)
    moreover from \<open>dropWhile is_space s \<noteq> []\<close>
    have "hd (dropWhile is_space s) \<in> set (dropWhile is_space s)"
      by simp
    ultimately show "\<exists>c \<in> set (dropWhile is_space s). \<not> is_space c"
      by blast
  qed
  finally show ?thesis
    by auto
qed

lemma features_for_doc_rows:
  "features_for_doc (PyDoc doc)
     = Inr (np_array (map vector [t \<leftarrow> doc. \<exists>c \<in> set (tok_text t). \<not> is_space c]))"
proof -
  have "[vector t. t \<leftarrow> doc, tok_text t \<noteq> [] \<and> strip (tok_text t) \<noteq> []]
      = map vector [t \<leftarrow> doc. \<exists>c \<in> set (tok_text t). \<not> is_space c]"
    by (induction doc) (simp_all add: non_blank_iff)
  then show ?thesis
    by simp
qed

lemma np_size_np_array:
  "(np_size (np_array (filter row_any rs)) = 0) = (filter row_any rs = [])"
proof (cases "filter row_any rs")
  case Nil
  then show ?thesis
    by (simp add: np_array_def np_size_def)
next
  case (Cons r rest)
  then have "r \<in> set (filter row_any rs)"
    by simp
  then have "r \<noteq> []"
    by (auto simp add: row_any_def)
  with Cons show ?thesis
    by (simp add: np_array_def np_size_def)
qed

lemma calculate_cls_vector_error:
  "(calculate_cls_vector mean feats p = Inl e) =
     (e = InvalidPooling p \<and> p \<noteq> MEAN_POOLING \<and> p \<noteq> MAX_POOLING
        \<and> filter row_any (rows feats) \<noteq> [])"
  by (auto simp add: calculate_cls_vector_def Let_def np_size_np_array)

lemma calculate_cls_vector_ok:
  "p = MEAN_POOLING \<or> p = MAX_POOLING \<or> filter row_any (rows feats) = [] \<Longrightarrow>
     \<exists>cls. calculate_cls_vector mean feats p = Inr cls"
  by (cases "calculate_cls_vector mean feats p") (auto simp add: calculate_cls_vector_error)

lemma Features_init_valid:
  "Features_init t FEATURE_TYPE_SEQUENCE attr orig =
     Inr \<lparr>features = t, ftype = FEATURE_TYPE_SEQUENCE, origin = orig, message_attribute = attr\<rparr>"
  "Features_init t FEATURE_TYPE_SENTENCE attr orig =
     Inr \<lparr>features = t, ftype = FEATURE_TYPE_SENTENCE, origin = orig, message_attribute = attr\<rparr>"
  by (simp_all add: Features_init_def validate_type_def VALID_FEATURE_TYPES_def)

lemma set_spacy_features_doc:
  assumes "docs attribute = Some key" and "get message key = PyDoc doc"
  shows "set_spacy_features mean docs self message attribute =
     (case calculate_cls_vector mean
             (np_array (map vector [t \<leftarrow> doc. \<exists>c \<in> set (tok_text t). \<not> is_space c]))
             (pooling_operation self) of
        Inl e \<Rightarrow> (Some e, message)
      | Inr cls \<Rightarrow>
          (case component_config self ALIAS of
             None \<Rightarrow> (Some (KeyError ALIAS), message)
           | Some alias \<Rightarrow>
               (None, message\<lparr>msg_features := msg_features message @
                  [\<lparr>features = NDArray (np_array (map vector
                        [t \<leftarrow> doc. \<exists>c \<in> set (tok_text t). \<not> is_space c])),
                    ftype = FEATURE_TYPE_SEQUENCE, origin = alias,
                    message_attribute = attribute\<rparr>,
                   \<lparr>features = NDArray cls, ftype = FEATURE_TYPE_SENTENCE, origin = alias,
                    message_attribute = attribute\<rparr>]\<rparr>)))"
  using assms
  by (simp add: set_spacy_features_def get_doc_def features_for_doc_rows Features_init_valid
      add_features_def Let_def del: features_for_doc.simps split: sum.splits option.splits)

lemma eval_doc_message:
  "get doc_message ''spacy_doc'' =
     PyDoc [\<lparr>tok_text = [104, 105], vector = [1, 0]\<rparr>,
            \<lparr>tok_text = [160], vector = [5, 5]\<rparr>,
            \<lparr>tok_text = [121, 111, 117], vector = [0, 2]\<rparr>]"
  by (simp add: get_def doc_message_def TEXT_def)

lemma float64_mean_values:
  "float64_mean [1, 1, 2] = 6004799503160661 / 4503599627370496"
  "float64_mean [1, 3] = 2"
  "float64_mean [2, 4] = 3"
  "float64_mean [1, 0] = 1 / 2"
  "float64_mean [0, 2] = 1"
  by code_simp+

section \<open>The claims\<close>

text \<open>
  C4. Two arrays, or two sparse matrices, with the same number of rows combine to their
  horizontal concatenation: row by row the first followed by the second, with as many
  rows and the sum of the widths. With different numbers of rows the combination fails
  with the shape error, which carries the two numbers of rows.
\<close>

theorem combine_same_sparsity:
  assumes "well_shaped a" and "well_shaped b"
    and "features fd = NDArray a" and "features fs = SpMatrix a"
  shows "(np_len a = np_len b \<longrightarrow>
            combine_with_features fd (Some (NDArray b)) =
              Inr (NDArray (Matrix (ncols a + ncols b)
                     (map (\<lambda>i. rows a ! i @ rows b ! i) [0..<np_len a])))
          \<and> combine_with_features fs (Some (SpMatrix b)) =
              Inr (SpMatrix (Matrix (ncols a + ncols b)
                     (map (\<lambda>i. rows a ! i @ rows b ! i) [0..<np_len a])))
          \<and> well_shaped (Matrix (ncols a + ncols b)
                     (map (\<lambda>i. rows a ! i @ rows b ! i) [0..<np_len a])))
       \<and> (np_len a \<noteq> np_len b \<longrightarrow>
            combine_with_features fd (Some (NDArray b))
              = Inl (ShapeMismatch (np_len a) (np_len b))
          \<and> combine_with_features fs (Some (SpMatrix b))
              = Inl (ShapeMismatch (np_len a) (np_len b)))"
proof (intro conjI impI)
  assume eq: "np_len a = np_len b"
  then have rows_eq: "map2 (@) (rows a) (rows b)
      = map (\<lambda>i. rows a ! i @ rows b ! i) [0..<np_len a]"
    by (simp add: np_len_def map2_append_two)
  show "combine_with_features fd (Some (NDArray b)) =
      Inr (NDArray (Matrix (ncols a + ncols b)
             (map (\<lambda>i. rows a ! i @ rows b ! i) [0..<np_len a])))"
    using eq assms(3) rows_eq
    by (simp add: combine_with_features_def is_dense_def is_sparse_def
        combine_dense_features_def np_concatenate_def)
  show "combine_with_features fs (Some (SpMatrix b)) =
      Inr (SpMatrix (Matrix (ncols a + ncols b)
             (map (\<lambda>i. rows a ! i @ rows b ! i) [0..<np_len a])))"
    using eq assms(4) rows_eq
    by (simp add: combine_with_features_def is_dense_def is_sparse_def
        combine_sparse_features_def hstack_def np_len_def)
  show "well_shaped (Matrix (ncols a + ncols b)
      (map (\<lambda>i. rows a ! i @ rows b ! i) [0..<np_len a]))"
    using well_shaped_concat [OF assms(1,2)] rows_eq by simp
next
  assume ne: "np_len a \<noteq> np_len b"
  show "combine_with_features fd (Some (NDArray b)) = Inl (ShapeMismatch (np_len a) (np_len b))"
    using ne assms(3)
    by (simp add: combine_with_features_def is_dense_def is_sparse_def
        combine_dense_features_def)
  show "combine_with_features fs (Some (SpMatrix b)) = Inl (ShapeMismatch (np_len a) (np_len b))"
    using ne assms(4)
    by (simp add: combine_with_features_def is_dense_def is_sparse_def
        combine_sparse_features_def np_len_def)
qed

theorem combine_same_sparsity_witness:
  "combine_with_features
     \<lparr>features = NDArray (Matrix 1 [[1], [2::int]]), ftype = ''sequence'', origin = ''a'',
        message_attribute = ''text''\<rparr>
     (Some (NDArray (Matrix 2 [[3, 4], [5, 6]]))) = Inr (NDArray (Matrix 3 [[1, 3, 4], [2, 5, 6]]))
   \<and> combine_with_features
     \<lparr>features = SpMatrix (Matrix 1 [[1], [2::int]]), ftype = ''sequence'', origin = ''a'',
        message_attribute = ''text''\<rparr>
     (Some (SpMatrix (Matrix 2 [[3, 4], [5, 6]]))) = Inr (SpMatrix (Matrix 3 [[1, 3, 4], [2, 5, 6]]))"
  using combine_same_sparsity [of "Matrix 1 [[1], [2::int]]" "Matrix 2 [[3, 4], [5, 6]]"
      "\<lparr>features = NDArray (Matrix 1 [[1], [2::int]]), ftype = ''sequence'', origin = ''a'',
        message_attribute = ''text''\<rparr>"
      "\<lparr>features = SpMatrix (Matrix 1 [[1], [2::int]]), ftype = ''sequence'', origin = ''a'',
        message_attribute = ''text''\<rparr>"]
  by (simp add: well_shaped_def np_len_def upt_rec)

text \<open>
  C6. An array combined with a sparse matrix, in either role, fails with the sparsity
  error: nothing is converted.
\<close>

theorem combine_mixed_sparsity:
  "(features f = NDArray a \<longrightarrow>
      combine_with_features f (Some (SpMatrix b)) = Inl IncompatibleSparsity)
   \<and> (features f = SpMatrix a \<longrightarrow>
      combine_with_features f (Some (NDArray b)) = Inl IncompatibleSparsity)"
  by (simp add: combine_with_features_def is_dense_def is_sparse_def)

theorem combine_mixed_sparsity_witness:
  "combine_with_features
     \<lparr>features = NDArray (Matrix 1 [[1 :: int]]), ftype = ''sentence'', origin = ''a'',
        message_attribute = ''text''\<rparr>
     (Some (SpMatrix (Matrix 1 [[2]]))) = Inl IncompatibleSparsity
   \<and> combine_with_features
     \<lparr>features = SpMatrix (Matrix 1 [[1 :: int]]), ftype = ''sentence'', origin = ''a'',
        message_attribute = ''text''\<rparr>
     (Some (NDArray (Matrix 1 [[2]]))) = Inl IncompatibleSparsity"
  using combine_mixed_sparsity [where a = "Matrix 1 [[1]]" and b = "Matrix 1 [[2]]" and f =
      "\<lparr>features = NDArray (Matrix 1 [[1 :: int]]), ftype = ''sentence'', origin = ''a'',
        message_attribute = ''text''\<rparr>"]
    combine_mixed_sparsity [where a = "Matrix 1 [[1]]" and b = "Matrix 1 [[2]]" and f =
      "\<lparr>features = SpMatrix (Matrix 1 [[1 :: int]]), ftype = ''sentence'', origin = ''a'',
        message_attribute = ''text''\<rparr>"]
  by simp

text \<open>
  C7. Three dense arrays with the same number of rows combine to the same array in
  either grouping, the concatenation of the three row by row; when the numbers of rows
  are not all the same, both groupings fail with the shape error.
\<close>

theorem combine_dense_associative:
  "(np_len a = np_len b \<and> np_len b = np_len c \<longrightarrow>
      combine_left a b c = combine_right a b c
      \<and> combine_left a b c =
          Inr (Matrix (ncols a + ncols b + ncols c)
                 (map (\<lambda>i. rows a ! i @ rows b ! i @ rows c ! i) [0..<np_len a])))
   \<and> (\<not> (np_len a = np_len b \<and> np_len b = np_len c) \<longrightarrow>
        (\<exists>m n. combine_left a b c = Inl (ShapeMismatch m n) \<and> m \<noteq> n)
      \<and> (\<exists>m n. combine_right a b c = Inl (ShapeMismatch m n) \<and> m \<noteq> n))"
proof (intro conjI impI)
  assume eq: "np_len a = np_len b \<and> np_len b = np_len c"
  then have l: "length (rows a) = length (rows b)" "length (rows b) = length (rows c)"
    by (simp_all add: np_len_def)
  have L: "combine_left a b c =
      Inr (Matrix (ncols a + ncols b + ncols c) (map2 (@) (map2 (@) (rows a) (rows b)) (rows c)))"
    using l by (simp add: combine_left_def combine_dense_features_def np_len_def
        np_concatenate_def)
  have R: "combine_right a b c =
      Inr (Matrix (ncols a + ncols b + ncols c) (map2 (@) (rows a) (map2 (@) (rows b) (rows c))))"
    using l by (simp add: combine_right_def combine_dense_features_def np_len_def
        np_concatenate_def add.assoc)
  show "combine_left a b c = combine_right a b c"
    using L R map2_append_assoc [OF l] by simp
  show "combine_left a b c =
          Inr (Matrix (ncols a + ncols b + ncols c)
                 (map (\<lambda>i. rows a ! i @ rows b ! i @ rows c ! i) [0..<np_len a]))"
    using L map2_append_three [OF l] by (simp add: np_len_def)
next
  assume ne: "\<not> (np_len a = np_len b \<and> np_len b = np_len c)"
  show "\<exists>m n. combine_left a b c = Inl (ShapeMismatch m n) \<and> m \<noteq> n"
    using ne by (auto simp add: combine_left_def combine_dense_features_def np_len_def
        np_concatenate_def)
  show "\<exists>m n. combine_right a b c = Inl (ShapeMismatch m n) \<and> m \<noteq> n"
    using ne by (auto simp add: combine_right_def combine_dense_features_def np_len_def
        np_concatenate_def)
qed

theorem combine_dense_associative_witness:
  "combine_left (Matrix 1 [[1], [2 :: int]]) (Matrix 1 [[3], [4]]) (Matrix 2 [[5, 6], [7, 8]])
     = Inr (Matrix 4 [[1, 3, 5, 6], [2, 4, 7, 8]])
   \<and> combine_right (Matrix 1 [[1], [2 :: int]]) (Matrix 1 [[3], [4]]) (Matrix 2 [[5, 6], [7, 8]])
     = Inr (Matrix 4 [[1, 3, 5, 6], [2, 4, 7, 8]])
   \<and> (\<exists>m n. combine_left (Matrix 1 [[1], [2 :: int]]) (Matrix 1 [[3]]) (Matrix 1 [[5]])
         = Inl (ShapeMismatch m n))
   \<and> (\<exists>m n. combine_right (Matrix 1 [[1], [2 :: int]]) (Matrix 1 [[3]]) (Matrix 1 [[5]])
         = Inl (ShapeMismatch m n))"
proof -
  have same: "combine_left (Matrix 1 [[1], [2 :: int]]) (Matrix 1 [[3], [4]])
        (Matrix 2 [[5, 6], [7, 8]]) = Inr (Matrix 4 [[1, 3, 5, 6], [2, 4, 7, 8]])
      \<and> combine_right (Matrix 1 [[1], [2 :: int]]) (Matrix 1 [[3], [4]])
        (Matrix 2 [[5, 6], [7, 8]]) = Inr (Matrix 4 [[1, 3, 5, 6], [2, 4, 7, 8]])"
    using combine_dense_associative [of "Matrix 1 [[1], [2 :: int]]" "Matrix 1 [[3], [4]]"
        "Matrix 2 [[5, 6], [7, 8]]"]
    by (auto simp add: np_len_def upt_rec eval_nat_numeral)
  have differ: "(\<exists>m n. combine_left (Matrix 1 [[1], [2 :: int]]) (Matrix 1 [[3]]) (Matrix 1 [[5]])
          = Inl (ShapeMismatch m n))
      \<and> (\<exists>m n. combine_right (Matrix 1 [[1], [2 :: int]]) (Matrix 1 [[3]]) (Matrix 1 [[5]])
          = Inl (ShapeMismatch m n))"
    using combine_dense_associative [of "Matrix 1 [[1], [2 :: int]]" "Matrix 1 [[3]]"
        "Matrix 1 [[5]]"]
    by (simp add: np_len_def) blast
  from same differ show ?thesis
    by simp
qed

text \<open>
  C10. Construction checks the type tag and nothing else: it succeeds exactly for the
  valid tags, whatever the tensor. A constructed record is dense exactly when it is not
  sparse, and sparse exactly when its tensor is a sparse matrix, so that an array and any
  other object are dense.
\<close>

theorem features_sparsity_classification:
  "Features_init t ty attr orig =
     (if ty \<in> set VALID_FEATURE_TYPES
      then Inr \<lparr>features = t, ftype = ty, origin = orig, message_attribute = attr\<rparr>
      else Inl (InvalidFeatureType ty))
   \<and> isl (Features_init t ty attr orig) = isl (Features_init t' ty attr orig)
   \<and> (Features_init t ty attr orig = Inr f \<longrightarrow>
        is_dense f = (\<not> is_sparse f)
      \<and> is_sparse f = (\<exists>m. t = SpMatrix m)
      \<and> is_dense f = ((\<exists>m. t = NDArray m) \<or> (\<exists>x. t = PyObject x)))"
proof -
  have init: "Features_init u ty attr orig =
     (if ty \<in> set VALID_FEATURE_TYPES
      then Inr \<lparr>features = u, ftype = ty, origin = orig, message_attribute = attr\<rparr>
      else Inl (InvalidFeatureType ty))" for u :: "'a tensor"
    by (simp add: Features_init_def validate_type_def)
  have cls: "is_dense f = (\<not> is_sparse f) \<and> is_sparse f = (\<exists>m. t = SpMatrix m)
      \<and> is_dense f = ((\<exists>m. t = NDArray m) \<or> (\<exists>x. t = PyObject x))"
    if "Features_init t ty attr orig = Inr f"
  proof -
    from that have "features f = t"
      by (auto simp add: init split: if_splits)
    then show ?thesis
      by (cases t) (simp_all add: is_dense_def is_sparse_def)
  qed
  have indep: "isl (Features_init t ty attr orig) = isl (Features_init t' ty attr orig)"
    by (simp add: Features_init_def validate_type_def)
  show ?thesis
  proof (intro conjI impI)
    show "Features_init t ty attr orig =
       (if ty \<in> set VALID_FEATURE_TYPES
        then Inr \<lparr>features = t, ftype = ty, origin = orig, message_attribute = attr\<rparr>
        else Inl (InvalidFeatureType ty))"
      by (rule init)
    show "isl (Features_init t ty attr orig) = isl (Features_init t' ty attr orig)"
      by (rule indep)
  qed (use cls in blast)+
qed

theorem features_sparsity_classification_witness:
  "Features_init (PyObject ''5'' :: int tensor) ''sequence'' ''text'' ''a''
     = Inr \<lparr>features = PyObject ''5'', ftype = ''sequence'', origin = ''a'',
            message_attribute = ''text''\<rparr>
   \<and> is_dense \<lparr>features = PyObject ''5'' :: int tensor, ftype = ''sequence'', origin = ''a'',
            message_attribute = ''text''\<rparr>
   \<and> \<not> is_sparse \<lparr>features = PyObject ''5'' :: int tensor, ftype = ''sequence'',
            origin = ''a'', message_attribute = ''text''\<rparr>
   \<and> Features_init (PyObject ''5'' :: int tensor) ''word'' ''text'' ''a''
     = Inl (InvalidFeatureType ''word'')"
  using features_sparsity_classification [of "PyObject ''5'' :: int tensor" "''sequence''"
      "''text''" "''a''" "PyObject ''5'' :: int tensor"
      "\<lparr>features = PyObject ''5'', ftype = ''sequence'', origin = ''a'',
            message_attribute = ''text''\<rparr>"]
    features_sparsity_classification [of "PyObject ''5'' :: int tensor" "''word''"
      "''text''" "''a''" "PyObject ''5'' :: int tensor"]
  by (simp add: VALID_FEATURE_TYPES_def FEATURE_TYPE_SEQUENCE_def FEATURE_TYPE_SENTENCE_def)




text \<open>
  C3. A retrieval with no record of the attribute and the sparsity returns the pair of
  two \<^verbatim>\<open>None\<close>. With such a record it returns nothing: the first condition evaluated reads
  \<^verbatim>\<open>Features.SEQUENCE\<close>, which the class does not declare, and the retrieval ends with
  \<^verbatim>\<open>AttributeError\<close> before a group is formed or folded.
\<close>

theorem retrieval_raises_on_a_match:
  "get_dense_features stored_message ''text'' [] [] = Inl (AttributeError ''SEQUENCE'')
   \<and> get_sparse_features stored_message ''text'' [] [] = Inl (AttributeError ''SEQUENCE'')
   \<and> get_dense_features stored_message ''intent'' [] [] = Inr (None, None)
   \<and> get_sparse_features stored_message ''intent'' [] [] = Inr (None, None)"
  by (simp add: get_dense_features_value get_sparse_features_value stored_message_def
      is_dense_def is_sparse_def)

text \<open>
  C9. The export does not depend on the features of the message. The raw text is under
  the key text, whatever the data; no entry has the value \<^verbatim>\<open>None\<close>; every other entry is
  an entry of the data, a key whose value is \<^verbatim>\<open>None\<close> is left out, and with the restriction
  to the output properties only their keys appear.
\<close>

theorem as_dict_export:
  "as_dict (m\<lparr>msg_features := fs\<rparr>) flag = as_dict m flag
   \<and> as_dict m flag ''text'' = Some (PyStr (msg_text m))
   \<and> (\<forall>key. as_dict m flag key \<noteq> Some PyNone)
   \<and> (\<forall>key. key \<noteq> ''text'' \<and> msg_data m key = Some PyNone \<longrightarrow> key \<notin> dom (as_dict m flag))
   \<and> (\<forall>key. key \<noteq> ''text'' \<and> key \<in> dom (as_dict m True) \<longrightarrow>
         key \<in> msg_output_properties m)
   \<and> (\<forall>key v. key \<noteq> ''text'' \<and> as_dict m flag key = Some v \<longrightarrow> msg_data m key = Some v)
   \<and> (\<forall>key v. key \<noteq> ''text'' \<and> msg_data m key = Some v \<and> v \<noteq> PyNone
         \<and> (flag \<longrightarrow> key \<in> msg_output_properties m) \<longrightarrow> as_dict m flag key = Some v)"
proof (intro conjI allI impI)
  show "as_dict (m\<lparr>msg_features := fs\<rparr>) flag = as_dict m flag"
    by (simp add: as_dict_def cong: if_cong)
  show "as_dict m flag ''text'' = Some (PyStr (msg_text m))"
    by (simp add: as_dict_def Let_def)
  show "as_dict m flag key \<noteq> Some PyNone" for key
    by (simp add: as_dict_def Let_def split: option.splits)
  show "key \<notin> dom (as_dict m flag)"
    if "key \<noteq> ''text'' \<and> msg_data m key = Some PyNone" for key
    using that by (simp add: as_dict_def Let_def dom_def)
  show "key \<in> msg_output_properties m"
    if "key \<noteq> ''text'' \<and> key \<in> dom (as_dict m True)" for key
    using that by (auto simp add: as_dict_def Let_def dom_def split: if_splits)
  show "msg_data m key = Some v"
    if "key \<noteq> ''text'' \<and> as_dict m flag key = Some v" for key v
    using that by (auto simp add: as_dict_def Let_def split: if_splits option.splits)
  show "as_dict m flag key = Some v"
    if "key \<noteq> ''text'' \<and> msg_data m key = Some v \<and> v \<noteq> PyNone
         \<and> (flag \<longrightarrow> key \<in> msg_output_properties m)" for key v
    using that by (auto simp add: as_dict_def Let_def)
qed

theorem as_dict_export_witness:
  "as_dict example_message True ''text'' = Some (PyStr ''hello'')
   \<and> as_dict example_message True ''intent'' = Some (PyStr ''greet'')
   \<and> ''response'' \<notin> dom (as_dict example_message True)
   \<and> ''count'' \<notin> dom (as_dict example_message True)
   \<and> as_dict example_message False ''count'' = Some (PyInt 3)"
proof -
  note t = as_dict_export [where m = example_message and fs = "[]" and flag = True]
  note f = as_dict_export [where m = example_message and fs = "[]" and flag = False]
  have raw: "as_dict example_message True ''text'' = Some (PyStr ''hello'')"
    using t [THEN conjunct2, THEN conjunct1] by (simp add: example_message_def)
  have intent: "as_dict example_message True ''intent'' = Some (PyStr ''greet'')"
    using t [THEN conjunct2, THEN conjunct2, THEN conjunct2, THEN conjunct2, THEN conjunct2,
        THEN conjunct2, rule_format, of "''intent''" "PyStr ''greet''"]
    by (simp add: example_message_def)
  have response: "''response'' \<notin> dom (as_dict example_message True)"
    using t [THEN conjunct2, THEN conjunct2, THEN conjunct2, THEN conjunct1, rule_format,
        of "''response''"]
    by (simp add: example_message_def)
  have count: "''count'' \<notin> dom (as_dict example_message True)"
    using t [THEN conjunct2, THEN conjunct2, THEN conjunct2, THEN conjunct2, THEN conjunct1,
        rule_format, of "''count''"]
    by (auto simp add: example_message_def)
  have count': "as_dict example_message False ''count'' = Some (PyInt 3)"
    using f [THEN conjunct2, THEN conjunct2, THEN conjunct2, THEN conjunct2, THEN conjunct2,
        THEN conjunct2, rule_format, of "''count''" "PyInt 3"]
    by (simp add: example_message_def)
  from raw intent response count count' show ?thesis
    by simp
qed

text \<open>
  C1. With stored records of the attribute, a retrieval with the sequence list
  \<^verbatim>\<open>['a']\<close> and an empty sentence list, and one with an empty sequence list and the
  sentence list \<^verbatim>\<open>['a']\<close>, both end with \<^verbatim>\<open>AttributeError\<close> on \<^verbatim>\<open>Features.SEQUENCE\<close>: no
  record is kept or dropped by its origin.
\<close>

theorem retrieval_raises_before_origin_filter:
  "get_dense_features stored_message ''text'' [''a''] [] = Inl (AttributeError ''SEQUENCE'')
   \<and> get_dense_features stored_message ''text'' [] [''a''] = Inl (AttributeError ''SEQUENCE'')
   \<and> get_sparse_features stored_message ''text'' [''a''] []
       = Inl (AttributeError ''SEQUENCE'')
   \<and> get_sparse_features stored_message ''text'' [] [''a'']
       = Inl (AttributeError ''SEQUENCE'')"
  by (simp add: get_dense_features_value get_sparse_features_value stored_message_def
      is_dense_def is_sparse_def)

text \<open>
  C2. The constructor stores the pooling value it finds and never fails with the pooling
  error. The error comes from the pooling itself, while a message is processed, exactly
  when the value is neither mean nor max and some row is not zero; a featurizer whose
  value is mean or max never raises it.
\<close>

theorem pooling_policy_checked_when_pooling:
  fixes message :: "'a::{zero,linorder} Message"
  shows "(config POOLING = Some p \<longrightarrow>
            SpacyFeaturizer_init config = Inr \<lparr>component_config = config, pooling_operation = p\<rparr>)
       \<and> SpacyFeaturizer_init config \<noteq> Inl (InvalidPooling q)
       \<and> ((calculate_cls_vector mean feats p = Inl e) =
            (e = InvalidPooling p \<and> p \<noteq> MEAN_POOLING \<and> p \<noteq> MAX_POOLING
               \<and> filter row_any (rows feats) \<noteq> []))
       \<and> (pooling_operation self = MEAN_POOLING \<or> pooling_operation self = MAX_POOLING \<longrightarrow>
            fst (set_spacy_features mean docs self message attribute)
              \<noteq> Some (InvalidPooling q))"
proof (intro conjI impI)
  assume "config POOLING = Some p"
  then show "SpacyFeaturizer_init config = Inr \<lparr>component_config = config, pooling_operation = p\<rparr>"
    by (simp add: SpacyFeaturizer_init_def)
next
  show "SpacyFeaturizer_init config \<noteq> Inl (InvalidPooling q)"
    by (simp add: SpacyFeaturizer_init_def split: option.splits)
  show "(calculate_cls_vector mean feats p = Inl e) =
      (e = InvalidPooling p \<and> p \<noteq> MEAN_POOLING \<and> p \<noteq> MAX_POOLING
         \<and> filter row_any (rows feats) \<noteq> [])"
    by (rule calculate_cls_vector_error)
next
  assume valid: "pooling_operation self = MEAN_POOLING \<or> pooling_operation self = MAX_POOLING"
  have pool: "calculate_cls_vector mean fs (pooling_operation self) \<noteq> Inl x"
    for fs :: "'a matrix" and x
    using valid by (auto simp add: calculate_cls_vector_error)
  have init: "Features_init t ty a b \<noteq> Inl (InvalidPooling q)" for t :: "'a tensor" and ty a b
    by (simp add: Features_init_def validate_type_def)
  have doc: "features_for_doc d \<noteq> Inl (InvalidPooling q)" for d :: "'a pyval"
    by (cases d) simp_all
  show "fst (set_spacy_features mean docs self message attribute) \<noteq> Some (InvalidPooling q)"
    using pool init doc
    by (auto simp add: set_spacy_features_def get_doc_def Let_def
        split: sum.splits option.splits if_splits)
qed

theorem pooling_policy_checked_when_pooling_witness:
  "SpacyFeaturizer_init [POOLING \<mapsto> ''median'', ALIAS \<mapsto> ''spacy_featurizer'']
     = Inr \<lparr>component_config = [POOLING \<mapsto> ''median'', ALIAS \<mapsto> ''spacy_featurizer''],
            pooling_operation = ''median''\<rparr>
   \<and> calculate_cls_vector float64_mean (Matrix 2 [[1, 0], [0, 2]]) ''median''
     = Inl (InvalidPooling ''median'')
   \<and> fst (set_spacy_features float64_mean example_docs mean_featurizer doc_message ''text'')
     \<noteq> Some (InvalidPooling ''median'')"
proof -
  have init: "SpacyFeaturizer_init [POOLING \<mapsto> ''median'', ALIAS \<mapsto> ''spacy_featurizer'']
     = Inr \<lparr>component_config = [POOLING \<mapsto> ''median'', ALIAS \<mapsto> ''spacy_featurizer''],
            pooling_operation = ''median''\<rparr>"
    using pooling_policy_checked_when_pooling
      [where config = "[POOLING \<mapsto> ''median'', ALIAS \<mapsto> ''spacy_featurizer'']"
        and p = "''median''", THEN conjunct1]
    by (simp add: POOLING_def ALIAS_def)
  have pool: "calculate_cls_vector float64_mean (Matrix 2 [[1, 0], [0, 2]]) ''median''
     = Inl (InvalidPooling ''median'')"
    using pooling_policy_checked_when_pooling
      [where feats = "Matrix 2 [[1, 0], [0, 2 :: rat]]" and p = "''median''"
        and mean = float64_mean
        and e = "InvalidPooling ''median''", THEN conjunct2, THEN conjunct2, THEN conjunct1]
    by (simp add: MEAN_POOLING_def MAX_POOLING_def row_any_def)
  have valid: "fst (set_spacy_features float64_mean example_docs mean_featurizer doc_message
        ''text'') \<noteq> Some (InvalidPooling ''median'')"
    using pooling_policy_checked_when_pooling
      [where self = mean_featurizer and docs = example_docs and message = doc_message
        and mean = float64_mean and attribute = "''text''" and q = "''median''",
        THEN conjunct2, THEN conjunct2, THEN conjunct2]
    by (simp add: mean_featurizer_def)
  from init pool valid show ?thesis
    by simp
qed

text \<open>The value \<^verbatim>\<open>median\<close> is accepted by the constructor and refused when a message
  is processed.\<close>

theorem construction_accepts_any_policy:
  "SpacyFeaturizer_init [POOLING \<mapsto> ''median'', ALIAS \<mapsto> ''spacy_featurizer'']
     = Inr median_featurizer
   \<and> ''median'' \<noteq> MEAN_POOLING \<and> ''median'' \<noteq> MAX_POOLING
   \<and> process float64_mean example_docs median_featurizer doc_message
     = (Some (InvalidPooling ''median''), doc_message)"
  by (simp add: SpacyFeaturizer_init_def median_featurizer_def MEAN_POOLING_def MAX_POOLING_def
      process_def TEXT_def example_docs_def POOLING_def ALIAS_def
      set_spacy_features_doc [where key = "''spacy_doc''", OF _ eval_doc_message]
      is_space_def calculate_cls_vector_def np_array_def np_size_def row_any_def)

text \<open>
  C8. For an attribute with a document key and a featurizer with an alias: without a
  document the message is left as it is and nothing is raised. With a document, and a
  pooling value that is mean or max (or no row that is not zero), exactly two records are
  appended after the stored ones, the sequence record with one row per token whose text
  has a character that is not whitespace, then the sentence record with the pooled
  vector, both with the attribute and the alias; the text and the data are unchanged.
  With a document, another pooling value and a row that is not zero, the pooling error
  is raised and the message is left as it is.
\<close>

theorem adapter_appends_two_records:
  fixes message :: "'a::{zero,linorder} Message"
  assumes "docs attribute = Some key" and "component_config self ALIAS = Some alias"
  shows "(get message key = PyNone \<longrightarrow>
            set_spacy_features mean docs self message attribute = (None, message))
       \<and> (get message key = PyDoc doc
            \<and> (pooling_operation self = MEAN_POOLING \<or> pooling_operation self = MAX_POOLING
                 \<or> filter row_any (map vector
                       [t \<leftarrow> doc. \<exists>c \<in> set (tok_text t). \<not> is_space c]) = []) \<longrightarrow>
            (\<exists>cls. calculate_cls_vector mean
                     (np_array (map vector
                        [t \<leftarrow> doc. \<exists>c \<in> set (tok_text t). \<not> is_space c]))
                     (pooling_operation self) = Inr cls
                 \<and> set_spacy_features mean docs self message attribute =
                     (None, message\<lparr>msg_features := msg_features message @
                        [\<lparr>features = NDArray (np_array (map vector
                              [t \<leftarrow> doc. \<exists>c \<in> set (tok_text t). \<not> is_space c])),
                          ftype = FEATURE_TYPE_SEQUENCE, origin = alias,
                          message_attribute = attribute\<rparr>,
                         \<lparr>features = NDArray cls, ftype = FEATURE_TYPE_SENTENCE,
                          origin = alias, message_attribute = attribute\<rparr>]\<rparr>))
            \<and> np_len (np_array (map vector
                   [t \<leftarrow> doc. \<exists>c \<in> set (tok_text t). \<not> is_space c]))
                = length [t \<leftarrow> doc. \<exists>c \<in> set (tok_text t). \<not> is_space c])
       \<and> (get message key = PyDoc doc
            \<and> pooling_operation self \<noteq> MEAN_POOLING \<and> pooling_operation self \<noteq> MAX_POOLING
            \<and> filter row_any (map vector
                  [t \<leftarrow> doc. \<exists>c \<in> set (tok_text t). \<not> is_space c]) \<noteq> [] \<longrightarrow>
            set_spacy_features mean docs self message attribute =
              (Some (InvalidPooling (pooling_operation self)), message))"
proof (intro conjI impI)
  assume "get message key = PyNone"
  with assms(1) show "set_spacy_features mean docs self message attribute = (None, message)"
    by (simp add: set_spacy_features_def get_doc_def)
next
  let ?rows = "map vector [t \<leftarrow> doc. \<exists>c \<in> set (tok_text t). \<not> is_space c]"
  assume a: "get message key = PyDoc doc
      \<and> (pooling_operation self = MEAN_POOLING \<or> pooling_operation self = MAX_POOLING
           \<or> filter row_any ?rows = [])"
  have rows: "rows (np_array ?rows) = ?rows"
    by (simp add: np_array_def split: list.splits)
  from a have "pooling_operation self = MEAN_POOLING \<or> pooling_operation self = MAX_POOLING
      \<or> filter row_any (rows (np_array ?rows)) = []"
    by (simp only: rows)
  then obtain cls
    where cls: "calculate_cls_vector mean (np_array ?rows) (pooling_operation self) = Inr cls"
    using calculate_cls_vector_ok by blast
  from a have doc: "get message key = PyDoc doc"
    by simp
  show "\<exists>cls. calculate_cls_vector mean (np_array ?rows) (pooling_operation self) = Inr cls
      \<and> set_spacy_features mean docs self message attribute =
          (None, message\<lparr>msg_features := msg_features message @
             [\<lparr>features = NDArray (np_array ?rows),
               ftype = FEATURE_TYPE_SEQUENCE, origin = alias,
               message_attribute = attribute\<rparr>,
              \<lparr>features = NDArray cls, ftype = FEATURE_TYPE_SENTENCE,
               origin = alias, message_attribute = attribute\<rparr>]\<rparr>)"
    using cls assms(2)
    by (simp add: set_spacy_features_doc
        [where docs = docs and attribute = attribute and self = self, OF assms(1) doc])
  show "np_len (np_array ?rows)
      = length [t \<leftarrow> doc. \<exists>c \<in> set (tok_text t). \<not> is_space c]"
    by (simp add: np_len_def rows)
next
  let ?rows = "map vector [t \<leftarrow> doc. \<exists>c \<in> set (tok_text t). \<not> is_space c]"
  assume a: "get message key = PyDoc doc
      \<and> pooling_operation self \<noteq> MEAN_POOLING \<and> pooling_operation self \<noteq> MAX_POOLING
      \<and> filter row_any ?rows \<noteq> []"
  have rows: "rows (np_array ?rows) = ?rows"
    by (simp add: np_array_def split: list.splits)
  from a have "calculate_cls_vector mean (np_array ?rows) (pooling_operation self)
      = Inl (InvalidPooling (pooling_operation self))"
    by (simp add: calculate_cls_vector_error rows)
  moreover from a have doc: "get message key = PyDoc doc"
    by simp
  ultimately show "set_spacy_features mean docs self message attribute =
      (Some (InvalidPooling (pooling_operation self)), message)"
    by (simp add: set_spacy_features_doc
        [where docs = docs and attribute = attribute and self = self, OF assms(1) doc])
qed

theorem adapter_appends_two_records_witness:
  "set_spacy_features float64_mean example_docs mean_featurizer example_message ''text''
     = (None, example_message)
   \<and> set_spacy_features float64_mean example_docs mean_featurizer doc_message ''text''
     = (None, doc_message\<lparr>msg_features :=
          [\<lparr>features = NDArray (Matrix 2 [[1, 0], [0, 2]]), ftype = ''sequence'',
            origin = ''spacy_featurizer'', message_attribute = ''text''\<rparr>,
           \<lparr>features = NDArray (Matrix 2 [[1 / 2, 1]]), ftype = ''sentence'',
            origin = ''spacy_featurizer'', message_attribute = ''text''\<rparr>]\<rparr>)
   \<and> set_spacy_features float64_mean example_docs median_featurizer doc_message ''text''
     = (Some (InvalidPooling ''median''), doc_message)"
proof -
  have docs: "example_docs ''text'' = Some ''spacy_doc''"
    by (simp add: example_docs_def)
  have mean_alias: "component_config mean_featurizer ALIAS = Some ''spacy_featurizer''"
    by (simp add: mean_featurizer_def defaults_def ALIAS_def POOLING_def)
  have median_alias: "component_config median_featurizer ALIAS = Some ''spacy_featurizer''"
    by (simp add: median_featurizer_def ALIAS_def POOLING_def)
  have absent: "get example_message ''spacy_doc'' = PyNone"
    by (simp add: get_def example_message_def TEXT_def)
  let ?doc = "[\<lparr>tok_text = [104, 105], vector = [1, 0 :: rat]\<rparr>,
               \<lparr>tok_text = [160], vector = [5, 5]\<rparr>,
               \<lparr>tok_text = [121, 111, 117], vector = [0, 2]\<rparr>]"
  have arr: "np_array (map vector [t \<leftarrow> ?doc. \<exists>c \<in> set (tok_text t). \<not> is_space c])
      = Matrix 2 [[1, 0], [0, 2]]"
    by (simp add: is_space_def np_array_def)
  have pooled: "calculate_cls_vector float64_mean (Matrix 2 [[1, 0], [0, 2]]) MEAN_POOLING
      = Inr (Matrix 2 [[1 / 2, 1]])"
    by (simp add: calculate_cls_vector_def Let_def np_array_def np_size_def row_any_def
        np_mean_def column_def upt_rec numeral_eq_Suc float64_mean_values)
  have none: "set_spacy_features float64_mean example_docs mean_featurizer example_message
        ''text'' = (None, example_message)"
    using adapter_appends_two_records [where docs = example_docs and attribute = "''text''"
        and message = example_message and mean = float64_mean, OF docs mean_alias,
        THEN conjunct1] absent
    by simp
  have two: "set_spacy_features float64_mean example_docs mean_featurizer doc_message ''text''
     = (None, doc_message\<lparr>msg_features :=
          [\<lparr>features = NDArray (Matrix 2 [[1, 0], [0, 2]]), ftype = ''sequence'',
            origin = ''spacy_featurizer'', message_attribute = ''text''\<rparr>,
           \<lparr>features = NDArray (Matrix 2 [[1 / 2, 1]]), ftype = ''sentence'',
            origin = ''spacy_featurizer'', message_attribute = ''text''\<rparr>]\<rparr>)"
  proof -
    have policy: "pooling_operation mean_featurizer = MEAN_POOLING"
      by (simp add: mean_featurizer_def)
    then have cond: "pooling_operation mean_featurizer = MEAN_POOLING
        \<or> pooling_operation mean_featurizer = MAX_POOLING
        \<or> filter row_any (map vector
              [t \<leftarrow> ?doc. \<exists>c \<in> set (tok_text t). \<not> is_space c]) = []"
      by simp
    from adapter_appends_two_records [where docs = example_docs and attribute = "''text''"
        and message = doc_message and mean = float64_mean, OF docs mean_alias,
        THEN conjunct2, THEN conjunct1, rule_format, OF conjI, OF eval_doc_message cond]
    obtain cls where
      c: "calculate_cls_vector float64_mean
            (np_array (map vector [t \<leftarrow> ?doc. \<exists>c \<in> set (tok_text t). \<not> is_space c]))
            (pooling_operation mean_featurizer) = Inr cls" and
      r: "set_spacy_features float64_mean example_docs mean_featurizer doc_message ''text'' =
            (None, doc_message\<lparr>msg_features := msg_features doc_message @
               [\<lparr>features = NDArray (np_array (map vector
                     [t \<leftarrow> ?doc. \<exists>c \<in> set (tok_text t). \<not> is_space c])),
                 ftype = FEATURE_TYPE_SEQUENCE, origin = ''spacy_featurizer'',
                 message_attribute = ''text''\<rparr>,
                \<lparr>features = NDArray cls, ftype = FEATURE_TYPE_SENTENCE,
                 origin = ''spacy_featurizer'', message_attribute = ''text''\<rparr>]\<rparr>)"
      by blast
    from c have "cls = Matrix 2 [[1 / 2, 1]]"
      by (simp only: arr policy pooled sum.inject)
    moreover have "msg_features doc_message = []"
      by (simp add: doc_message_def)
    ultimately show ?thesis
      using r by (simp only: arr FEATURE_TYPE_SEQUENCE_def FEATURE_TYPE_SENTENCE_def append_Nil)
  qed
  have fails: "set_spacy_features float64_mean example_docs median_featurizer doc_message
        ''text'' = (Some (InvalidPooling ''median''), doc_message)"
  proof -
    have cond: "pooling_operation median_featurizer \<noteq> MEAN_POOLING
        \<and> pooling_operation median_featurizer \<noteq> MAX_POOLING
        \<and> filter row_any (map vector
              [t \<leftarrow> ?doc. \<exists>c \<in> set (tok_text t). \<not> is_space c]) \<noteq> []"
      by (simp add: median_featurizer_def MEAN_POOLING_def MAX_POOLING_def is_space_def
          row_any_def)
    have "set_spacy_features float64_mean example_docs median_featurizer doc_message ''text''
        = (Some (InvalidPooling (pooling_operation median_featurizer)), doc_message)"
      by (rule adapter_appends_two_records [where docs = example_docs
            and attribute = "''text''" and message = doc_message and mean = float64_mean,
            OF docs median_alias, THEN conjunct2, THEN conjunct2, rule_format, OF conjI,
            OF eval_doc_message cond])
    then show ?thesis
      by (simp add: median_featurizer_def)
  qed
  from none two fails show ?thesis
    by simp
qed

text \<open>A message with a document, processed by the featurizer of the value \<^verbatim>\<open>median\<close>:
  an error and no record.\<close>

theorem invalid_policy_appends_nothing:
  "get doc_message ''spacy_doc'' =
     PyDoc [\<lparr>tok_text = [104, 105], vector = [1, 0]\<rparr>,
            \<lparr>tok_text = [160], vector = [5, 5]\<rparr>,
            \<lparr>tok_text = [121, 111, 117], vector = [0, 2]\<rparr>]
   \<and> set_spacy_features float64_mean example_docs median_featurizer doc_message ''text''
     = (Some (InvalidPooling ''median''), doc_message)
   \<and> msg_features doc_message = []"
  by (simp add: eval_doc_message median_featurizer_def MEAN_POOLING_def MAX_POOLING_def
      example_docs_def
      set_spacy_features_doc [where key = "''spacy_doc''", OF _ eval_doc_message]
      is_space_def calculate_cls_vector_def np_array_def np_size_def row_any_def)
    (simp add: doc_message_def)

end
